theory Spec2Isabelle
  imports Main
begin

section \<open>Data model of the audio provider\<close>

text \<open>
  The development follows \<^verbatim>\<open>src/MusicPlayer/context/AudioProvider.tsx\<close>.
  A JavaScript string is a \<^typ>\<open>string\<close>: the UTF-8 bytes of a well-formed text, so
  that \<^verbatim>\<open>split\<close>, \<^verbatim>\<open>encodeURIComponent\<close> and \<^verbatim>\<open>JSON.stringify\<close> all work byte by byte.
  An optional field (\<^verbatim>\<open>albumCover?: string\<close>) is an \<^typ>\<open>string option\<close>, \<^term>\<open>None\<close>
  standing for \<^verbatim>\<open>undefined\<close>.
\<close>

record AudioFile =
  id' :: string
  filename :: string
  uri :: string
  albumCover :: "string option"
  artist :: "string option"
  album :: "string option"

record AudioContextType =
  audioFiles :: "AudioFile list"
  loading :: bool

text \<open>Every exception the code can meet is a value; \<open>Error\<close> carries its message.\<close>

datatype js_error =
  Error string
  | TypeError
  | SyntaxError
  | NetworkError
  | StorageError
  | MediaLibraryError

datatype log_entry =
  ConsoleError string js_error
  | ConsoleLog string
  | ConsoleLogData string "AudioFile list"

text \<open>A network call: the method's URL, then the request body (POST) or the
  \<^verbatim>\<open>Authorization\<close> header (GET).\<close>

datatype request =
  Post string string
  | Get string string

text \<open>What an \<^verbatim>\<open>await axios...\<close> gives: a rejection (transport error or a status
  outside 2xx), or a response whose \<^verbatim>\<open>data\<close> may be absent.\<close>

datatype 'a axios_result =
  Rejected js_error
  | Response "'a option"

text \<open>The part of the catalog's search answer that the code reads,
  \<^verbatim>\<open>data.tracks.items[0]\<close> with \<^verbatim>\<open>album.images[0].url\<close>, \<^verbatim>\<open>artists[0].name\<close> and
  \<^verbatim>\<open>album.name\<close>. Every property may be missing (\<^term>\<open>None\<close>), every array element
  may be \<^verbatim>\<open>null\<close> (\<^term>\<open>None\<close>).\<close>

datatype image = Image (image_url: "string option")

datatype spotify_artist = Artist (artist_name: "string option")

datatype spotify_album =
  Album (album_images: "image option list option") (album_name: "string option")

datatype spotify_track =
  Track (track_album: "spotify_album option")
        (track_artists: "spotify_artist option list option")

datatype paging = Paging (items: "spotify_track option list option")

datatype search_data = SearchData (tracks: "paging option")

datatype token_body = TokenBody (access_token: "string option")

datatype permission_status = Granted | Denied | Undetermined

record Asset =
  asset_id :: string
  asset_filename :: string
  asset_uri :: string

section \<open>JavaScript primitives\<close>

text \<open>Sequencing of steps that may throw: the first exception ends the block.\<close>

definition and_then :: "'e + 'a \<Rightarrow> ('a \<Rightarrow> 'e + 'b) \<Rightarrow> 'e + 'b" where
  "and_then r f = (case r of Inl e \<Rightarrow> Inl e | Inr x \<Rightarrow> f x)"

text \<open>Reading a property of \<^verbatim>\<open>undefined\<close> or \<^verbatim>\<open>null\<close> throws a \<^verbatim>\<open>TypeError\<close>.\<close>

definition deref :: "'a option \<Rightarrow> js_error + 'a" where
  "deref v = (case v of None \<Rightarrow> Inl TypeError | Some x \<Rightarrow> Inr x)"

text \<open>\<^verbatim>\<open>xs[0]\<close>: \<^verbatim>\<open>undefined\<close> on an empty array, the element (which may be
  \<^verbatim>\<open>null\<close>) otherwise.\<close>

definition first :: "'a option list \<Rightarrow> 'a option" where
  "first xs = (case xs of [] \<Rightarrow> None | x # _ \<Rightarrow> x)"

text \<open>\<^verbatim>\<open>s.split(sep)\<close> for a one-character separator: never an empty array.\<close>

fun split_str :: "char \<Rightarrow> string \<Rightarrow> string list" where
  "split_str sep [] = [[]]"
| "split_str sep (c # cs) =
     (if c = sep then [] # split_str sep cs
      else (case split_str sep cs of [] \<Rightarrow> [[c]] | w # ws \<Rightarrow> (c # w) # ws))"

definition hex_upper :: "nat \<Rightarrow> char" where
  "hex_upper n = ''0123456789ABCDEF'' ! (n mod 16)"

definition uri_unreserved :: "char \<Rightarrow> bool" where
  "uri_unreserved c =
     (c \<in> set (''ABCDEFGHIJKLMNOPQRSTUVWXYZabcdefghijklmnopqrstuvwxyz0123456789-_.!~*()''
                @ [CHR 0x27]))"

definition percent_encode :: "char \<Rightarrow> string" where
  "percent_encode c =
     [CHR ''%'', hex_upper ((of_char c :: nat) div 16), hex_upper ((of_char c :: nat) mod 16)]"

text \<open>\<^verbatim>\<open>encodeURIComponent\<close>: letters, digits and \<^verbatim>\<open>- _ . ! ~ * ' ( )\<close> stay, every
  other byte of the UTF-8 text becomes \<^verbatim>\<open>%XX\<close>.\<close>

definition encodeURIComponent :: "string \<Rightarrow> string" where
  "encodeURIComponent s =
     concat (map (\<lambda>c. if uri_unreserved c then [c] else percent_encode c) s)"

text \<open>\<^verbatim>\<open>Promise.all\<close>: fulfilled with all the values in the order of the promises,
  rejected as soon as one of them is.\<close>

fun promise_all :: "('e + 'a) list \<Rightarrow> 'e + 'a list" where
  "promise_all [] = Inr []"
| "promise_all (p # ps) =
     (case p of
        Inl e \<Rightarrow> Inl e
      | Inr x \<Rightarrow> (case promise_all ps of Inl e \<Rightarrow> Inl e | Inr xs \<Rightarrow> Inr (x # xs)))"

text \<open>\<^verbatim>\<open>useContext\<close>: the value of the nearest enclosing provider (the head of the
  list), the context's default outside every provider.\<close>

definition useContext :: "'a \<Rightarrow> 'a list \<Rightarrow> 'a" where
  "useContext dflt providers = (case providers of [] \<Rightarrow> dflt | v # _ \<Rightarrow> v)"

section \<open>The hook\<close>

text \<open>\<^verbatim>\<open>AudioContext\<close> is created with the default \<^verbatim>\<open>undefined\<close>; a provider's value
  is an object, hence truthy.\<close>

definition useAudio :: "AudioContextType list \<Rightarrow> js_error + AudioContextType" where
  "useAudio providers =
     (case useContext None (map Some providers) of
        None \<Rightarrow> Inl (Error ''useAudio must be used within an AudioProvider'')
      | Some ctx \<Rightarrow> Inr ctx)"

section \<open>Enrichment with the catalog's data\<close>

text \<open>Line 64: \<^verbatim>\<open>encodeURIComponent(file.filename.split('.')[0])\<close>.\<close>

definition searchQuery :: "AudioFile \<Rightarrow> string" where
  "searchQuery file =
     encodeURIComponent
       (case split_str (CHR ''.'') (filename file) of [] \<Rightarrow> ''undefined'' | w # _ \<Rightarrow> w)"

definition search_url :: "AudioFile \<Rightarrow> string" where
  "search_url file =
     ''https://api.spotify.com/v1/search?q='' @ searchQuery file @ ''&type=track&limit=1''"

definition search_request :: "AudioFile \<Rightarrow> string \<Rightarrow> request" where
  "search_request file token = Get (search_url file) (''Bearer '' @ token)"

text \<open>Line 74: \<^verbatim>\<open>response.data.tracks.items[0]\<close>.\<close>

definition first_track :: "search_data axios_result \<Rightarrow> js_error + spotify_track option" where
  "first_track r =
     (case r of
        Rejected e \<Rightarrow> Inl e
      | Response d \<Rightarrow>
          and_then (deref d) (\<lambda>body.
          and_then (deref (tracks body)) (\<lambda>p.
          and_then (deref (items p)) (\<lambda>its. Inr (first its)))))"

text \<open>Lines 76 to 81: the object literal, its three new properties evaluated in
  the order written.\<close>

definition merge_track :: "AudioFile \<Rightarrow> spotify_track \<Rightarrow> js_error + AudioFile" where
  "merge_track file t =
     and_then (deref (track_album t)) (\<lambda>a.
     and_then (deref (album_images a)) (\<lambda>imgs.
     and_then (deref (track_artists t)) (\<lambda>arts.
       Inr (file\<lparr>albumCover := (case first imgs of None \<Rightarrow> None | Some i \<Rightarrow> image_url i),
                 artist := (case first arts of None \<Rightarrow> None | Some ar \<Rightarrow> artist_name ar),
                 album := album_name a\<rparr>))))"

text \<open>The body of the \<^verbatim>\<open>try\<close> of lines 63 to 83, after the request has settled.\<close>

definition enhance_body :: "search_data axios_result \<Rightarrow> AudioFile \<Rightarrow> js_error + AudioFile" where
  "enhance_body r file =
     and_then (first_track r)
       (\<lambda>t. case t of None \<Rightarrow> Inr file | Some tr \<Rightarrow> merge_track file tr)"

text \<open>The callback of \<^verbatim>\<open>audioFiles.map\<close>: what its promise settles to, and what it
  writes to the console.\<close>

definition enhance_file ::
  "search_data axios_result \<Rightarrow> AudioFile \<Rightarrow> (js_error + AudioFile) \<times> log_entry list" where
  "enhance_file r file =
     (case enhance_body r file of
        Inl e \<Rightarrow> (Inr file, [ConsoleError ''Error fetching data from Spotify:'' e])
      | Inr f \<Rightarrow> (Inr f, []))"

text \<open>The batch: \<open>outcome i\<close> is how the request of the \<open>i\<close>-th file settles. The
  promise's result comes first, then the network calls made (in scan order, each callback
  running up to its request when \<^verbatim>\<open>map\<close> calls it), then the console lines (listed in
  scan order; their real order is that of the answers).\<close>

definition enhanceAudioWithSpotifyData ::
  "(nat \<Rightarrow> search_data axios_result) \<Rightarrow> AudioFile list \<Rightarrow> string \<Rightarrow>
     (js_error + AudioFile list) \<times> request list \<times> log_entry list" where
  "enhanceAudioWithSpotifyData outcome files token =
     (let settled = map (\<lambda>(i, f). enhance_file (outcome i) f) (enumerate 0 files)
      in (promise_all (map fst settled),
          map (\<lambda>f. search_request f token) files,
          concat (map snd settled)))"

section \<open>The cached snapshot as JSON text\<close>

text \<open>
  \<^verbatim>\<open>storeAudioData\<close> writes \<^verbatim>\<open>JSON.stringify(enhancedFiles)\<close> and
  \<^verbatim>\<open>loadAudioDataFromStorage\<close> reads it back with \<^verbatim>\<open>JSON.parse\<close>. Both are modelled on
  the text itself. The text is a sequence of tokens: brackets, braces, colon, comma and
  string literals.
\<close>

datatype token = LBracket | RBracket | LBrace | RBrace | Colon | Comma | Str string

text \<open>\<^verbatim>\<open>JSON.stringify\<close> of a string: the quote, the backslash and the control
  characters below \<^verbatim>\<open>0x20\<close> are escaped (the short escapes where JSON has one,
  \<^verbatim>\<open>\u00xx\<close> in lower-case hexadecimal otherwise); every other byte is written as it
  is.\<close>

definition hex_lower :: "nat \<Rightarrow> char" where
  "hex_lower n = ''0123456789abcdef'' ! (n mod 16)"

definition quote_char :: "char \<Rightarrow> string" where
  "quote_char c =
     (if c = CHR 0x22 then [CHR 0x5C, CHR 0x22]
      else if c = CHR 0x5C then [CHR 0x5C, CHR 0x5C]
      else if c = CHR 0x08 then [CHR 0x5C, CHR ''b'']
      else if c = CHR 0x0C then [CHR 0x5C, CHR ''f'']
      else if c = CHR 0x0A then [CHR 0x5C, CHR ''n'']
      else if c = CHR 0x0D then [CHR 0x5C, CHR ''r'']
      else if c = CHR 0x09 then [CHR 0x5C, CHR ''t'']
      else if (of_char c :: nat) < 0x20 then
        [CHR 0x5C, CHR ''u'', CHR ''0'', CHR ''0'',
         hex_lower ((of_char c :: nat) div 16), hex_lower ((of_char c :: nat) mod 16)]
      else [c])"

definition quote :: "string \<Rightarrow> string" where
  "quote s = CHR 0x22 # concat (map quote_char s) @ [CHR 0x22]"

fun render_token :: "token \<Rightarrow> string" where
  "render_token LBracket = ''[''"
| "render_token RBracket = '']''"
| "render_token LBrace = ''{''"
| "render_token RBrace = ''}''"
| "render_token Colon = '':''"
| "render_token Comma = '',''"
| "render_token (Str s) = quote s"

definition render :: "token list \<Rightarrow> string" where
  "render ts = concat (map render_token ts)"

text \<open>The properties of an \<^verbatim>\<open>AudioFile\<close> object in the order the code creates them
  (\<^verbatim>\<open>id\<close>, \<^verbatim>\<open>filename\<close>, \<^verbatim>\<open>uri\<close> at the scan, then \<^verbatim>\<open>albumCover\<close>, \<^verbatim>\<open>artist\<close>,
  \<^verbatim>\<open>album\<close> at the merge). \<^verbatim>\<open>JSON.stringify\<close> leaves out a property whose value is
  \<^verbatim>\<open>undefined\<close>.\<close>

definition members :: "AudioFile \<Rightarrow> (string \<times> string) list" where
  "members f =
     [(''id'', id' f), (''filename'', filename f), (''uri'', uri f)]
     @ (case albumCover f of None \<Rightarrow> [] | Some v \<Rightarrow> [(''albumCover'', v)])
     @ (case artist f of None \<Rightarrow> [] | Some v \<Rightarrow> [(''artist'', v)])
     @ (case album f of None \<Rightarrow> [] | Some v \<Rightarrow> [(''album'', v)])"

fun join_tokens :: "token list list \<Rightarrow> token list" where
  "join_tokens [] = []"
| "join_tokens [x] = x"
| "join_tokens (x # y # zs) = x @ Comma # join_tokens (y # zs)"

definition member_tokens :: "string \<times> string \<Rightarrow> token list" where
  "member_tokens kv = [Str (fst kv), Colon, Str (snd kv)]"

definition object_tokens :: "AudioFile \<Rightarrow> token list" where
  "object_tokens f = LBrace # join_tokens (map member_tokens (members f)) @ [RBrace]"

definition array_tokens :: "AudioFile list \<Rightarrow> token list" where
  "array_tokens fs = LBracket # join_tokens (map object_tokens fs) @ [RBracket]"

definition JSON_stringify :: "AudioFile list \<Rightarrow> string" where
  "JSON_stringify fs = render (array_tokens fs)"

text \<open>\<^verbatim>\<open>JSON.parse\<close>, first the string literals. An escape \<^verbatim>\<open>\uXXXX\<close> gives the UTF-8
  bytes of its code point; a surrogate half has none on its own and is refused here. A
  raw control character inside a literal is a syntax error.\<close>

definition hex_value :: "char \<Rightarrow> nat option" where
  "hex_value c =
     (let n = (of_char c :: nat) in
      if 48 \<le> n \<and> n \<le> 57 then Some (n - 48)
      else if 97 \<le> n \<and> n \<le> 102 then Some (n - 87)
      else if 65 \<le> n \<and> n \<le> 70 then Some (n - 55)
      else None)"

definition utf8 :: "nat \<Rightarrow> string option" where
  "utf8 n =
     (if n < 0x80 then Some [char_of n]
      else if n < 0x800 then Some [char_of (0xC0 + n div 64), char_of (0x80 + n mod 64)]
      else if 0xD800 \<le> n \<and> n < 0xE000 then None
      else Some [char_of (0xE0 + n div 4096), char_of (0x80 + (n div 64) mod 64),
                 char_of (0x80 + n mod 64)])"

definition unicode_escape :: "char \<Rightarrow> char \<Rightarrow> char \<Rightarrow> char \<Rightarrow> string option" where
  "unicode_escape a b c d =
     (case (hex_value a, hex_value b, hex_value c, hex_value d) of
        (Some x, Some y, Some z, Some w) \<Rightarrow> utf8 (4096 * x + 256 * y + 16 * z + w)
      | _ \<Rightarrow> None)"

definition unescape :: "char \<Rightarrow> char option" where
  "unescape e =
     (if e = CHR 0x22 then Some (CHR 0x22)
      else if e = CHR 0x5C then Some (CHR 0x5C)
      else if e = CHR ''/'' then Some (CHR ''/'')
      else if e = CHR ''b'' then Some (CHR 0x08)
      else if e = CHR ''f'' then Some (CHR 0x0C)
      else if e = CHR ''n'' then Some (CHR 0x0A)
      else if e = CHR ''r'' then Some (CHR 0x0D)
      else if e = CHR ''t'' then Some (CHR 0x09)
      else None)"

fun lex_string :: "string \<Rightarrow> (string \<times> string) option" where
  "lex_string [] = None"
| "lex_string (c # cs) =
     (if c = CHR 0x22 then Some ([], cs)
      else if c = CHR 0x5C then
        (case cs of
           [] \<Rightarrow> None
         | e # r \<Rightarrow>
             if e = CHR ''u'' then
               (case r of
                  a # b # c' # d # r' \<Rightarrow>
                    (case unicode_escape a b c' d of
                       None \<Rightarrow> None
                     | Some u \<Rightarrow>
                         (case lex_string r' of
                            None \<Rightarrow> None
                          | Some (s, rest) \<Rightarrow> Some (u @ s, rest)))
                | _ \<Rightarrow> None)
             else
               (case unescape e of
                  None \<Rightarrow> None
                | Some u \<Rightarrow>
                    (case lex_string r of
                       None \<Rightarrow> None
                     | Some (s, rest) \<Rightarrow> Some (u # s, rest))))
      else if (of_char c :: nat) < 0x20 then None
      else (case lex_string cs of None \<Rightarrow> None | Some (s, rest) \<Rightarrow> Some (c # s, rest)))"

text \<open>The literal read is shorter than the text it was read from: the lexer
  terminates.\<close>

lemma lex_string_length: "lex_string cs = Some (s, rest) \<Longrightarrow> length rest < length cs"
proof (induction cs arbitrary: s rest rule: lex_string.induct)
  case 1
  then show ?case by simp
next
  case (2 c cs)
  then show ?case
    by (auto split: if_splits list.splits option.splits prod.splits) fastforce+
qed


text \<open>The lexer skips JSON's white space between tokens. Numbers, \<^verbatim>\<open>true\<close>,
  \<^verbatim>\<open>false\<close> and \<^verbatim>\<open>null\<close> do not occur in a snapshot of \<^verbatim>\<open>AudioFile[]\<close> and are
  refused.\<close>

definition whitespace :: "char \<Rightarrow> bool" where
  "whitespace c = (c = CHR '' '' \<or> c = CHR 0x09 \<or> c = CHR 0x0A \<or> c = CHR 0x0D)"

function lex :: "string \<Rightarrow> token list option" where
  "lex [] = Some []"
| "lex (c # cs) =
     (if whitespace c then lex cs
      else if c = CHR ''['' then map_option (Cons LBracket) (lex cs)
      else if c = CHR '']'' then map_option (Cons RBracket) (lex cs)
      else if c = CHR ''{'' then map_option (Cons LBrace) (lex cs)
      else if c = CHR ''}'' then map_option (Cons RBrace) (lex cs)
      else if c = CHR '':'' then map_option (Cons Colon) (lex cs)
      else if c = CHR '','' then map_option (Cons Comma) (lex cs)
      else if c = CHR 0x22 then
        (case lex_string cs of
           None \<Rightarrow> None
         | Some (s, rest) \<Rightarrow> map_option (Cons (Str s)) (lex rest))
      else None)"
  by pat_completeness auto
termination
  by (relation "measure length") (auto dest: lex_string_length)

text \<open>The parser: an array of objects whose values are strings. The members of an
  object may come in any order; of a repeated key the last value stands, as in
  \<^verbatim>\<open>JSON.parse\<close>. The result is typed as the code types the cache: a text that is not
  the JSON of an \<^verbatim>\<open>AudioFile[]\<close> (an object without \<^verbatim>\<open>id\<close>, \<^verbatim>\<open>filename\<close> or
  \<^verbatim>\<open>uri\<close>, a value that is not a string) is refused like a text that is not JSON.\<close>

fun parse_members :: "token list \<Rightarrow> ((string \<times> string) list \<times> token list) option" where
  "parse_members (Str k # Colon # Str v # t # ts) =
     (if t = Comma then
        (case parse_members ts of
           None \<Rightarrow> None
         | Some (kvs, rest) \<Rightarrow> Some ((k, v) # kvs, rest))
      else if t = RBrace then Some ([(k, v)], ts)
      else None)"
| "parse_members _ = None"

definition parse_object :: "token list \<Rightarrow> ((string \<times> string) list \<times> token list) option" where
  "parse_object ts =
     (case ts of
        LBrace # RBrace # rest \<Rightarrow> Some ([], rest)
      | LBrace # rest \<Rightarrow> parse_members rest
      | _ \<Rightarrow> None)"

definition file_of_members :: "(string \<times> string) list \<Rightarrow> AudioFile option" where
  "file_of_members kvs =
     (let m = map_of (rev kvs) in
      case (m ''id'', m ''filename'', m ''uri'') of
        (Some i, Some n, Some u) \<Rightarrow>
          Some \<lparr>id' = i, filename = n, uri = u, albumCover = m ''albumCover'',
                artist = m ''artist'', album = m ''album''\<rparr>
      | _ \<Rightarrow> None)"

lemma parse_members_length:
  "parse_members ts = Some (kvs, rest) \<Longrightarrow> length rest < length ts"
proof (induction ts arbitrary: kvs rest rule: parse_members.induct)
  case (1 k v t ts)
  show ?case
  proof (cases "t = Comma")
    case True
    with "1.prems" obtain kvs' where "parse_members ts = Some (kvs', rest)"
      by (auto split: option.splits)
    with "1.IH" True have "length rest < length ts" by blast
    then show ?thesis by simp
  next
    case False
    with "1.prems" show ?thesis by (auto split: if_splits)
  qed
qed simp_all

lemma parse_object_length:
  "parse_object ts = Some (kvs, rest) \<Longrightarrow> length rest < length ts"
  by (auto simp: parse_object_def split: list.splits token.splits dest: parse_members_length)

function parse_elements :: "token list \<Rightarrow> (AudioFile list \<times> token list) option" where
  "parse_elements ts =
     (case parse_object ts of
        None \<Rightarrow> None
      | Some (kvs, rest) \<Rightarrow>
          (case file_of_members kvs of
             None \<Rightarrow> None
           | Some f \<Rightarrow>
               (case rest of
                  [] \<Rightarrow> None
                | t # rest' \<Rightarrow>
                    if t = Comma then
                      (case parse_elements rest' of
                         None \<Rightarrow> None
                       | Some (fs, r) \<Rightarrow> Some (f # fs, r))
                    else if t = RBracket then Some ([f], rest')
                    else None)))"
  by pat_completeness auto
termination
  by (relation "measure length") (auto dest: parse_object_length)

definition parse_tokens :: "token list \<Rightarrow> AudioFile list option" where
  "parse_tokens ts =
     (case ts of
        [] \<Rightarrow> None
      | t # rest \<Rightarrow>
          if t \<noteq> LBracket then None
          else if rest = [RBracket] then Some []
          else (case parse_elements rest of
                  None \<Rightarrow> None
                | Some (fs, r) \<Rightarrow> if r = [] then Some fs else None))"

definition JSON_parse :: "string \<Rightarrow> AudioFile list option" where
  "JSON_parse s = (case lex s of None \<Rightarrow> None | Some ts \<Rightarrow> parse_tokens ts)"

section \<open>The provider\<close>

text \<open>The state of the component (\<^verbatim>\<open>audioFiles\<close>, \<^verbatim>\<open>loading\<close>, \<^verbatim>\<open>accessToken\<close>), the
  contents of \<^verbatim>\<open>AsyncStorage\<close>, and what a run leaves behind: the network calls made,
  the calls to the media library, the console lines.\<close>

record Provider = AudioContextType +
  accessToken :: "string option"
  storage :: "string \<rightharpoonup> string"
  requests :: "request list"
  media_calls :: "string list"
  console :: "log_entry list"

text \<open>What the outside world answers during one run: the token endpoint,
  \<^verbatim>\<open>navigator.onLine\<close> (only its truthiness is read), whether \<^verbatim>\<open>AsyncStorage\<close> fails
  on a read or on a write, the permission request, the asset query (the assets that the
  one call of \<^verbatim>\<open>getAssetsAsync\<close> returns), and how the catalog request of the \<open>i\<close>-th
  file settles.\<close>

record Env =
  token_response :: "token_body axios_result"
  online :: bool
  getItem_fails :: bool
  setItem_fails :: bool
  permission :: "js_error + permission_status"
  assets :: "js_error + Asset list"
  search_outcome :: "nat \<Rightarrow> search_data axios_result"

definition setItem ::
  "bool \<Rightarrow> string \<Rightarrow> string \<Rightarrow> (string \<rightharpoonup> string) \<Rightarrow> js_error + (string \<rightharpoonup> string)" where
  "setItem fails key v store = (if fails then Inl StorageError else Inr (store(key \<mapsto> v)))"

definition getItem ::
  "bool \<Rightarrow> string \<Rightarrow> (string \<rightharpoonup> string) \<Rightarrow> js_error + string option" where
  "getItem fails key store = (if fails then Inl StorageError else Inr (store key))"

definition token_request :: request where
  "token_request = Post ''https://accounts.spotify.com/api/token'' ''grant_type=client_credentials''"

text \<open>An \<^verbatim>\<open>async\<close> function gives how its promise settles (\<open>Inl\<close>: rejected) and the
  state it leaves.\<close>

text \<open>Lines 43 to 57. The request's headers are not modelled: the client id and secret
  are taken to be text that \<^verbatim>\<open>btoa\<close> encodes, so that the request is always issued. In
  the \<^verbatim>\<open>catch\<close> the function returns nothing: \<^verbatim>\<open>undefined\<close>.\<close>

definition fetchSpotifyToken :: "Env \<Rightarrow> Provider \<Rightarrow> (js_error + string option) \<times> Provider" where
  "fetchSpotifyToken env w0 =
     (let w = w0\<lparr>requests := requests w0 @ [token_request]\<rparr> in
      case and_then (case token_response env of Rejected e \<Rightarrow> Inl e | Response d \<Rightarrow> deref d)
             (\<lambda>body. Inr (access_token body)) of
        Inl e \<Rightarrow>
          (Inr None, w\<lparr>console := console w @ [ConsoleError ''Error fetching Spotify token:'' e]\<rparr>)
      | Inr tok \<Rightarrow> (Inr tok, w\<lparr>accessToken := tok\<rparr>))"

text \<open>Lines 94 to 101.\<close>

definition storeAudioData :: "Env \<Rightarrow> AudioFile list \<Rightarrow> Provider \<Rightarrow> (js_error + unit) \<times> Provider" where
  "storeAudioData env enhancedFiles w =
     (case setItem (setItem_fails env) ''audioFiles'' (JSON_stringify enhancedFiles) (storage w) of
        Inl e \<Rightarrow> (Inr (), w\<lparr>console := console w @ [ConsoleError ''Error saving audio data:'' e]\<rparr>)
      | Inr store \<Rightarrow> (Inr (), w\<lparr>storage := store\<rparr>))"

text \<open>Lines 104 to 111: \<^verbatim>\<open>null\<close> when nothing is stored, \<^verbatim>\<open>undefined\<close> after an
  error; both are \<^term>\<open>None\<close>.\<close>

definition loadAudioDataFromStorage ::
  "Env \<Rightarrow> Provider \<Rightarrow> (js_error + AudioFile list option) \<times> Provider" where
  "loadAudioDataFromStorage env w =
     (case and_then (getItem (getItem_fails env) ''audioFiles'' (storage w))
             (\<lambda>jsonData. case jsonData of
                 None \<Rightarrow> Inr None
               | Some txt \<Rightarrow>
                   (case JSON_parse txt of None \<Rightarrow> Inl SyntaxError | Some fs \<Rightarrow> Inr (Some fs))) of
        Inl e \<Rightarrow>
          (Inr None,
           w\<lparr>console := console w @ [ConsoleError ''Error loading audio data from storage:'' e]\<rparr>)
      | Inr cached \<Rightarrow> (Inr cached, w))"

text \<open>Lines 122 to 126: the scanned file, its metadata unset.\<close>

definition asset_file :: "Asset \<Rightarrow> AudioFile" where
  "asset_file a =
     \<lparr>id' = asset_id a, filename = asset_filename a, uri = asset_uri a,
      albumCover = None, artist = None, album = None\<rparr>"

text \<open>The \<^verbatim>\<open>try\<close> block of \<^verbatim>\<open>fetchAudioFiles\<close>, lines 117 to 133.\<close>

definition fetchAudioFiles_body :: "Env \<Rightarrow> string \<Rightarrow> Provider \<Rightarrow> (js_error + unit) \<times> Provider" where
  "fetchAudioFiles_body env token w0 =
     (let w = w0\<lparr>media_calls := media_calls w0 @ [''requestPermissionsAsync'']\<rparr> in
      case permission env of
        Inl e \<Rightarrow> (Inl e, w)
      | Inr status \<Rightarrow>
          if status = Granted then
            (let w1 = w\<lparr>media_calls := media_calls w @ [''getAssetsAsync'']\<rparr> in
             case assets env of
               Inl e \<Rightarrow> (Inl e, w1)
             | Inr found \<Rightarrow>
                 (let files = map asset_file found in
                  case enhanceAudioWithSpotifyData (search_outcome env) files token of
                    (r, reqs, lines) \<Rightarrow>
                      (let w2 = w1\<lparr>requests := requests w1 @ reqs,
                                    console := console w1 @ lines\<rparr> in
                       case r of
                         Inl e \<Rightarrow> (Inl e, w2)
                       | Inr enhancedFiles \<Rightarrow>
                           storeAudioData env enhancedFiles (w2\<lparr>audioFiles := enhancedFiles\<rparr>))))
          else
            (Inr (),
             w\<lparr>console := console w
                  @ [ConsoleLog ''Permission to access media library was denied.'']\<rparr>))"

text \<open>Lines 114 to 139: \<^verbatim>\<open>setLoading(true)\<close>, the \<^verbatim>\<open>try\<close>, the \<^verbatim>\<open>catch\<close> that logs,
  the \<^verbatim>\<open>finally\<close> that clears the flag.\<close>

definition fetchAudioFiles :: "Env \<Rightarrow> string \<Rightarrow> Provider \<Rightarrow> (js_error + unit) \<times> Provider" where
  "fetchAudioFiles env token w0 =
     (case fetchAudioFiles_body env token (w0\<lparr>loading := True\<rparr>) of
        (Inl e, w) \<Rightarrow>
          (Inr (),
           w\<lparr>console := console w @ [ConsoleError ''Error fetching audio files:'' e],
             loading := False\<rparr>)
      | (Inr u, w) \<Rightarrow> (Inr (), w\<lparr>loading := False\<rparr>))"

text \<open>Lines 142 to 158. \<^verbatim>\<open>cachedData\<close> is truthy when it is an array (an empty one
  too), \<^verbatim>\<open>token\<close> when it is a string that is not empty. \<^verbatim>\<open>navigator.onLine\<close> is
  read twice with no \<^verbatim>\<open>await\<close> in between, so both reads agree.\<close>

definition initialize :: "Env \<Rightarrow> Provider \<Rightarrow> (js_error + unit) \<times> Provider" where
  "initialize env w0 =
     (case fetchSpotifyToken env w0 of
        (Inl e, w1) \<Rightarrow> (Inl e, w1)
      | (Inr token, w1) \<Rightarrow>
          (case loadAudioDataFromStorage env w1 of
             (Inl e, w2) \<Rightarrow> (Inl e, w2)
           | (Inr cachedData, w2) \<Rightarrow>
               (case (cachedData, online env) of
                  (Some fs, False) \<Rightarrow>
                    (Inr (),
                     w2\<lparr>console := console w2 @ [ConsoleLogData ''Loaded from cache:'' fs],
                        audioFiles := fs, loading := False\<rparr>)
                | _ \<Rightarrow>
                    (case token of
                       None \<Rightarrow> (Inr (), w2)
                     | Some t \<Rightarrow>
                         if t \<noteq> [] \<and> online env then fetchAudioFiles env t w2
                         else (Inr (), w2)))))"

text \<open>The state at mount (lines 31 to 33) over the stored entries \<open>store\<close>; the effect
  of line 141 runs \<^verbatim>\<open>initialize\<close> once from it.\<close>

definition mounted :: "(string \<rightharpoonup> string) \<Rightarrow> Provider" where
  "mounted store =
     \<lparr>audioFiles = [], loading = True, accessToken = None, storage = store,
      requests = [], media_calls = [], console = []\<rparr>"

section \<open>The query as the specification words it\<close>

text \<open>The extension the spec's sentence asks for, in its words: the file name without its
  trailing extension, that is without its last dot and what follows it. It is compared
  with what line 64 computes.\<close>

definition strip_extension_spec :: "string \<Rightarrow> string" where
  "strip_extension_spec s =
     (if CHR ''.'' \<in> set s then rev (tl (dropWhile (\<lambda>c. c \<noteq> CHR ''.'') (rev s))) else s)"

section \<open>Concrete runs\<close>

text \<open>Inputs on which the statements below are evaluated: device assets, a cached
  library of three tracks, and the worlds the provider runs in.\<close>

definition song_a :: Asset where
  "song_a =
     \<lparr>asset_id = ''1'', asset_filename = ''my.song.mp3'',
      asset_uri = ''file:///music/my.song.mp3''\<rparr>"

definition library3 :: "AudioFile list" where
  "library3 =
     [\<lparr>id' = ''1'', filename = ''my.song.mp3'', uri = ''file:///music/my.song.mp3'',
       albumCover = Some ''https://i.scdn.co/image/ab67'', artist = Some ''Some Artist'',
       album = Some ''Some Album''\<rparr>,
      \<lparr>id' = ''2'', filename = ''b.mp3'', uri = ''file:///music/b.mp3'',
       albumCover = None, artist = None, album = None\<rparr>,
      \<lparr>id' = ''3'', filename = ''c.wav'', uri = ''file:///music/c.wav'',
       albumCover = None, artist = Some ''C'', album = None\<rparr>]"

definition cache3 :: "string \<rightharpoonup> string" where
  "cache3 = [''audioFiles'' \<mapsto> JSON_stringify library3]"

text \<open>The token endpoint answers 401; the device is online, the permission granted,
  one asset on the device.\<close>

definition env_401 :: Env where
  "env_401 =
     \<lparr>token_response = Rejected (Error ''Request failed with status code 401''),
      online = True, getItem_fails = False, setItem_fails = False,
      permission = Inr Granted, assets = Inr [song_a],
      search_outcome = (\<lambda>i. Rejected NetworkError)\<rparr>"

text \<open>The device is offline: every request fails.\<close>

definition env_offline :: Env where
  "env_offline =
     \<lparr>token_response = Rejected NetworkError,
      online = False, getItem_fails = False, setItem_fails = False,
      permission = Inr Granted, assets = Inr [song_a],
      search_outcome = (\<lambda>i. Rejected NetworkError)\<rparr>"

text \<open>A token is obtained, the device is online, the permission is refused.\<close>

definition env_denied :: Env where
  "env_denied =
     \<lparr>token_response = Response (Some (TokenBody (Some ''BQDtoken''))),
      online = True, getItem_fails = False, setItem_fails = False,
      permission = Inr Denied, assets = Inr [song_a],
      search_outcome = (\<lambda>i. Rejected NetworkError)\<rparr>"

text \<open>A response of the catalog with the matches \<open>its\<close>.\<close>

abbreviation matches :: "spotify_track option list \<Rightarrow> search_data axios_result" where
  "matches its \<equiv> Response (Some (SearchData (Some (Paging (Some its)))))"

text \<open>A token is obtained, the device is online, the permission granted; the device
  holds two assets, the catalog has a match for the first and none for the second.\<close>

definition song_b :: Asset where
  "song_b = \<lparr>asset_id = ''2'', asset_filename = ''b.mp3'', asset_uri = ''file:///music/b.mp3''\<rparr>"

definition env_two :: Env where
  "env_two =
     \<lparr>token_response = Response (Some (TokenBody (Some ''BQDtoken''))),
      online = True, getItem_fails = False, setItem_fails = False,
      permission = Inr Granted, assets = Inr [song_a, song_b],
      search_outcome =
        (\<lambda>i. if i = 0 then
               matches [Some (Track
                 (Some (Album (Some [Some (Image (Some ''https://i.scdn.co/image/ab67''))])
                    (Some ''Some Album'')))
                 (Some [Some (Artist (Some ''Some Artist''))]))]
             else matches [])\<rparr>"

section \<open>Properties\<close>

lemma split_str_first: "split_str sep s = takeWhile (\<lambda>c. c \<noteq> sep) s # tl (split_str sep s)"
  by (induction s) (auto split: list.splits)

subsection \<open>The hook\<close>

text \<open>
  C9. Outside every \<^verbatim>\<open>AudioProvider\<close> the hook throws an \<^verbatim>\<open>Error\<close> with the message
  \<^verbatim>\<open>useAudio must be used within an AudioProvider\<close>; inside one it returns the value of
  the nearest provider and does not throw.
\<close>

theorem useAudio_outside_inside:
  "useAudio [] = Inl (Error ''useAudio must be used within an AudioProvider'')
   \<and> useAudio (c # cs) = Inr c"
  by (simp add: useAudio_def useContext_def)

subsection \<open>Reading back what was written\<close>

text \<open>The text written for two tracks, the second with an artist whose name holds a
  quote, a line feed and the control character 1; and a text with white space, the keys
  in another order and a \<^verbatim>\<open>\u\<close> escape, read back.\<close>

lemma stringify_example:
  \<open>JSON_stringify
     [asset_file song_b,
      \<lparr>id' = ''3'', filename = ''c.wav'', uri = ''u'', albumCover = None,
       artist = Some [CHR ''a'', CHR 0x22, CHR 0x0A, CHR 0x01], album = None\<rparr>] =
     ''[{"id":"2","filename":"b.mp3","uri":"file:///music/b.mp3"},''
     @ ''{"id":"3","filename":"c.wav","uri":"u","artist":"a''
     @ [CHR 0x5C] @ ''"'' @ [CHR 0x5C] @ ''n'' @ [CHR 0x5C] @ ''u0001"}]''\<close>
  by (simp add: JSON_stringify_def array_tokens_def object_tokens_def members_def
      member_tokens_def render_def quote_def quote_char_def hex_lower_def asset_file_def
      song_b_def)

lemma parse_example:
  \<open>JSON_parse
     (''[ {"uri":"u", "id":"3", "filename":"c.wav", "artist":"a'' @ [CHR 0x5C] @ ''u0041"} ]'')
     = Some [\<lparr>id' = ''3'', filename = ''c.wav'', uri = ''u'', albumCover = None,
              artist = Some ''aA'', album = None\<rparr>]\<close>
  by code_simp

lemma hex_value_hex_lower: "d < 16 \<Longrightarrow> hex_value (hex_lower d) = Some d"
proof -
  assume "d < 16"
  moreover have "list_all (\<lambda>d. hex_value (hex_lower d) = Some d) [0..<16]"
    by code_simp
  ultimately show ?thesis
    by (simp add: list_all_iff)
qed

lemma unicode_escape_control:
  assumes "(of_char c :: nat) < 0x20"
  shows "unicode_escape (CHR ''0'') (CHR ''0'') (hex_lower ((of_char c :: nat) div 16))
           (hex_lower ((of_char c :: nat) mod 16)) = Some [c]"
proof -
  let ?n = "of_char c :: nat"
  have z: "hex_value (CHR ''0'') = Some 0" by (simp add: hex_value_def)
  have hi: "hex_value (hex_lower (?n div 16)) = Some (?n div 16)"
    using assms by (intro hex_value_hex_lower) simp
  have lo: "hex_value (hex_lower (?n mod 16)) = Some (?n mod 16)"
    by (intro hex_value_hex_lower) simp
  have "16 * (?n div 16) + ?n mod 16 = ?n" by simp
  with assms z hi lo show ?thesis
    by (simp add: unicode_escape_def utf8_def)
qed

lemma lex_string_quote_char:
  "lex_string (quote_char c @ xs) =
     (case lex_string xs of None \<Rightarrow> None | Some (s, rest) \<Rightarrow> Some (c # s, rest))"
proof -
  consider (short) "c \<in> {CHR 0x22, CHR 0x5C, CHR 0x08, CHR 0x0C, CHR 0x0A, CHR 0x0D, CHR 0x09}"
    | (control) "c \<notin> {CHR 0x22, CHR 0x5C, CHR 0x08, CHR 0x0C, CHR 0x0A, CHR 0x0D, CHR 0x09}"
        "(of_char c :: nat) < 0x20"
    | (plain) "c \<notin> {CHR 0x22, CHR 0x5C, CHR 0x08, CHR 0x0C, CHR 0x0A, CHR 0x0D, CHR 0x09}"
        "\<not> (of_char c :: nat) < 0x20"
    by blast
  then show ?thesis
  proof cases
    case short
    then show ?thesis
      by (auto simp: quote_char_def unescape_def split: option.splits)
  next
    case control
    then show ?thesis
      by (simp add: quote_char_def unicode_escape_control split: option.splits)
  next
    case plain
    then show ?thesis
      by (simp add: quote_char_def split: option.splits)
  qed
qed

lemma lex_string_quoted:
  "lex_string (concat (map quote_char s) @ CHR 0x22 # rest) = Some (s, rest)"
  by (induction s) (simp_all add: lex_string_quote_char)

lemma lex_render_token: "lex (render_token t @ rest) = map_option (Cons t) (lex rest)"
  by (cases t) (simp_all add: whitespace_def quote_def lex_string_quoted)

lemma lex_render: "lex (render ts) = Some ts"
  unfolding render_def
proof (induction ts)
  case Nil
  show ?case by simp
next
  case (Cons t ts)
  then show ?case by (simp add: lex_render_token del: lex.simps)
qed

lemma parse_members_joined:
  "kvs \<noteq> [] \<Longrightarrow>
     parse_members (join_tokens (map member_tokens kvs) @ RBrace # rest) = Some (kvs, rest)"
proof (induction kvs rule: induct_list012)
  case 1
  then show ?case by simp
next
  case (2 kv)
  show ?case by (simp add: member_tokens_def)
next
  case (3 kv kv' kvs)
  then show ?case by (simp add: member_tokens_def)
qed

lemma members_not_Nil: "members f \<noteq> []"
  by (simp add: members_def)

lemma parse_object_tokens: "parse_object (object_tokens f @ rest) = Some (members f, rest)"
proof -
  obtain kv kvs where m: "members f = kv # kvs"
    using members_not_Nil by (cases "members f") auto
  have "parse_members (join_tokens (map member_tokens (members f)) @ RBrace # rest)
          = Some (members f, rest)"
    by (rule parse_members_joined) (rule members_not_Nil)
  moreover have "\<exists>k ts. join_tokens (map member_tokens (members f)) = Str k # ts"
    unfolding m by (cases kvs) (simp_all add: member_tokens_def)
  ultimately show ?thesis
    by (auto simp: parse_object_def object_tokens_def)
qed

lemma file_of_members_members: "file_of_members (members f) = Some f"
  by (cases "albumCover f"; cases "artist f"; cases "album f")
     (simp_all add: file_of_members_def members_def)

lemma parse_elements_joined:
  "fs \<noteq> [] \<Longrightarrow>
     parse_elements (join_tokens (map object_tokens fs) @ RBracket # rest) = Some (fs, rest)"
proof (induction fs rule: induct_list012)
  case 1
  then show ?case by simp
next
  case (2 f)
  show ?case
    by (subst parse_elements.simps) (simp add: parse_object_tokens file_of_members_members)
next
  case (3 f g fs)
  then show ?case
    by (subst parse_elements.simps) (simp add: parse_object_tokens file_of_members_members)
qed

lemma parse_tokens_array: "parse_tokens (array_tokens fs) = Some fs"
proof (cases fs)
  case Nil
  then show ?thesis by (simp add: parse_tokens_def array_tokens_def)
next
  case (Cons f fs')
  then have ne: "fs \<noteq> []" by simp
  have "join_tokens (map object_tokens fs) @ [RBracket] \<noteq> [RBracket]"
    using Cons by (cases fs') (simp_all add: object_tokens_def)
  moreover have "parse_elements (join_tokens (map object_tokens fs) @ [RBracket]) = Some (fs, [])"
    using parse_elements_joined [OF ne, of "[]"] by simp
  ultimately show ?thesis
    by (simp add: parse_tokens_def array_tokens_def)
qed

lemma JSON_roundtrip: "JSON_parse (JSON_stringify fs) = Some fs"
  by (simp add: JSON_parse_def JSON_stringify_def lex_render parse_tokens_array)

subsection \<open>Enrichment\<close>

lemmas enhance_defs = enhance_file_def enhance_body_def first_track_def merge_track_def
  and_then_def deref_def

lemma promise_all_Inr: "promise_all (map Inr xs) = Inr xs"
  by (induction xs) simp_all

lemma enhance_file_fulfils:
  "fst (enhance_file r f) = Inr (case enhance_body r f of Inl e \<Rightarrow> f | Inr g \<Rightarrow> g)"
  by (simp add: enhance_file_def split: sum.splits)

lemma merge_track_frame:
  "merge_track f t = Inr g \<Longrightarrow> id' g = id' f \<and> filename g = filename f \<and> uri g = uri f"
  by (auto simp: merge_track_def and_then_def deref_def split: option.splits)

lemma enhance_body_frame:
  "enhance_body r f = Inr g \<Longrightarrow> id' g = id' f \<and> filename g = filename f \<and> uri g = uri f"
  by (auto simp: enhance_body_def and_then_def dest: merge_track_frame split: sum.splits option.splits)

lemma enhance_result:
  "fst (enhanceAudioWithSpotifyData outcome files token) =
     Inr (map (\<lambda>(i, f). case enhance_body (outcome i) f of Inl e \<Rightarrow> f | Inr g \<Rightarrow> g) (enumerate 0 files))"
proof -
  have "map fst (map (\<lambda>(i, f). enhance_file (outcome i) f) (enumerate 0 files)) =
        map Inr (map (\<lambda>(i, f). case enhance_body (outcome i) f of Inl e \<Rightarrow> f | Inr g \<Rightarrow> g) (enumerate 0 files))"
    by (simp add: enhance_file_fulfils split_def)
  then show ?thesis
    by (simp add: enhanceAudioWithSpotifyData_def Let_def promise_all_Inr del: map_map)
qed

lemma enhanced_frame:
  assumes "\<And>r f g. enhance_body r f = Inr g \<Longrightarrow> sel g = sel f"
  shows "map sel (map (\<lambda>(i, f). case enhance_body (outcome i) f of Inl e \<Rightarrow> f | Inr g \<Rightarrow> g)
           (enumerate n files)) = map sel files"
proof -
  have "sel (case enhance_body (outcome i) f of Inl e \<Rightarrow> f | Inr g \<Rightarrow> g) = sel f" for i f
    using assms by (cases "enhance_body (outcome i) f") simp_all
  then show ?thesis
    by (induction files arbitrary: n) simp_all
qed

text \<open>
  C4. For every list of tracks and every way the per-track lookups settle (a match, no
  match, a failure), the enrichment step is fulfilled with a list of the same length
  whose \<open>i\<close>-th element is computed from the \<open>i\<close>-th input track and the \<open>i\<close>-th
  lookup alone, with that track's \<^verbatim>\<open>id\<close>, \<^verbatim>\<open>filename\<close> and \<^verbatim>\<open>uri\<close>: scan order is kept
  and no failed lookup rejects the batch.
\<close>

theorem enhance_keeps_scan_order:
  "\<exists>enhanced.
     fst (enhanceAudioWithSpotifyData outcome files token) = Inr enhanced
     \<and> enhanced =
         map (\<lambda>(i, f). case enhance_body (outcome i) f of Inl e \<Rightarrow> f | Inr g \<Rightarrow> g)
           (enumerate 0 files)
     \<and> length enhanced = length files
     \<and> map id' enhanced = map id' files
     \<and> map filename enhanced = map filename files
     \<and> map uri enhanced = map uri files"
proof -
  let ?ys = "map (\<lambda>(i, f). case enhance_body (outcome i) f of Inl e \<Rightarrow> f | Inr g \<Rightarrow> g)
           (enumerate 0 files)"
  have "fst (enhanceAudioWithSpotifyData outcome files token) = Inr ?ys"
    by (rule enhance_result)
  moreover have "length ?ys = length files"
    by simp
  moreover have "map id' ?ys = map id' files"
    by (rule enhanced_frame) (simp add: enhance_body_frame)
  moreover have "map filename ?ys = map filename files"
    by (rule enhanced_frame) (simp add: enhance_body_frame)
  moreover have "map uri ?ys = map uri files"
    by (rule enhanced_frame) (simp add: enhance_body_frame)
  ultimately show ?thesis
    by blast
qed

text \<open>
  C7. The query sent for a track is the URL-escaped file name cut at its first dot, with
  \<^verbatim>\<open>limit=1\<close>. For \<^verbatim>\<open>my.song.mp3\<close> the code asks for \<^verbatim>\<open>my\<close>, where stripping the
  extension alone gives \<^verbatim>\<open>my.song\<close>.
\<close>

theorem search_url_multiple_dots:
  "search_url (asset_file song_a) = ''https://api.spotify.com/v1/search?q=my&type=track&limit=1''
   \<and> encodeURIComponent (strip_extension_spec (filename (asset_file song_a))) = ''my.song''"
  by (simp add: search_url_def searchQuery_def asset_file_def song_a_def encodeURIComponent_def
      uri_unreserved_def strip_extension_spec_def)

text \<open>
  C8. When the lookup answers with at least one match (a match with its album, the
  album's images and its artists), the callback is fulfilled, logs nothing, and its
  track is the input track with \<^verbatim>\<open>albumCover\<close>, \<^verbatim>\<open>artist\<close> and \<^verbatim>\<open>album\<close> taken from the
  first match; \<^verbatim>\<open>id\<close>, \<^verbatim>\<open>filename\<close> and \<^verbatim>\<open>uri\<close> are those of the input.
\<close>

theorem enhance_file_first_match:
  "\<exists>g. enhance_file (matches (Some (Track (Some (Album (Some imgs) nm)) (Some arts)) # others)) file
         = (Inr g, [])
       \<and> g = file\<lparr>albumCover := (case first imgs of None \<Rightarrow> None | Some i \<Rightarrow> image_url i),
                  artist := (case first arts of None \<Rightarrow> None | Some ar \<Rightarrow> artist_name ar),
                  album := nm\<rparr>
       \<and> id' g = id' file \<and> filename g = filename file \<and> uri g = uri file"
  by (simp add: enhance_defs first_def)

text \<open>
  C10, as stated, fails: a match whose \<^verbatim>\<open>album.images\<close> is an empty array and whose
  \<^verbatim>\<open>artists\<close> property is missing has \<^verbatim>\<open>tracks.items\<close> and \<^verbatim>\<open>album\<close>, yet it takes the
  error branch, and the album's name is not copied.
\<close>

theorem enhance_file_missing_artists:
  "enhance_file (matches [Some (Track (Some (Album (Some []) (Some ''Some Album''))) None)])
     (asset_file song_a)
   = (Inr (asset_file song_a), [ConsoleError ''Error fetching data from Spotify:'' TypeError])"
  by (simp add: enhance_defs first_def)

text \<open>
  C10, amended. For a first match that has an album with an images array and has an
  artists array, enrichment does not throw and logs nothing: an empty images array
  leaves \<^verbatim>\<open>albumCover\<close> undefined, an empty artists array leaves \<^verbatim>\<open>artist\<close> undefined,
  and the other matched fields are still copied. The error branch, which logs and
  returns the input track unchanged, is taken exactly when the request is rejected, the
  response lacks \<^verbatim>\<open>data\<close>, \<^verbatim>\<open>tracks\<close> or \<^verbatim>\<open>tracks.items\<close>, or the first match lacks
  \<^verbatim>\<open>album\<close>, \<^verbatim>\<open>album.images\<close> or \<^verbatim>\<open>artists\<close>.
\<close>

theorem enhance_file_guarded_indexing:
  "enhance_file (matches (Some (Track (Some (Album (Some []) nm)) (Some arts)) # others)) file
     = (Inr (file\<lparr>albumCover := None,
                  artist := (case first arts of None \<Rightarrow> None | Some ar \<Rightarrow> artist_name ar),
                  album := nm\<rparr>), [])
   \<and> enhance_file (matches (Some (Track (Some (Album (Some imgs) nm)) (Some [])) # others)) file
     = (Inr (file\<lparr>albumCover := (case first imgs of None \<Rightarrow> None | Some i \<Rightarrow> image_url i),
                  artist := None,
                  album := nm\<rparr>), [])
   \<and> (\<exists>e. enhance_file r file = (Inr file, [ConsoleError ''Error fetching data from Spotify:'' e]))
     = (case r of
          Rejected e \<Rightarrow> True
        | Response None \<Rightarrow> True
        | Response (Some (SearchData None)) \<Rightarrow> True
        | Response (Some (SearchData (Some (Paging None)))) \<Rightarrow> True
        | Response (Some (SearchData (Some (Paging (Some its))))) \<Rightarrow>
            (case first its of
               None \<Rightarrow> False
             | Some (Track None arts) \<Rightarrow> True
             | Some (Track (Some (Album None nm)) arts) \<Rightarrow> True
             | Some (Track (Some (Album (Some imgs) nm)) None) \<Rightarrow> True
             | Some (Track (Some (Album (Some imgs) nm)) (Some arts)) \<Rightarrow> False))"
  by (auto simp: enhance_defs first_def
      split: axios_result.splits option.splits search_data.splits paging.splits list.splits
        spotify_track.splits spotify_album.splits)

subsection \<open>The provider's steps\<close>

lemmas storage_defs = setItem_def getItem_def and_then_def deref_def

lemma token_result:
  "fst (fetchSpotifyToken env w) =
     Inr (case token_response env of
            Rejected e \<Rightarrow> None
          | Response None \<Rightarrow> None
          | Response (Some body) \<Rightarrow> access_token body)"
  by (simp add: fetchSpotifyToken_def Let_def and_then_def deref_def
      split: axios_result.splits option.splits)

lemma token_frame:
  "audioFiles (snd (fetchSpotifyToken env w)) = audioFiles w"
  "loading (snd (fetchSpotifyToken env w)) = loading w"
  "storage (snd (fetchSpotifyToken env w)) = storage w"
  "media_calls (snd (fetchSpotifyToken env w)) = media_calls w"
  "requests (snd (fetchSpotifyToken env w)) = requests w @ [token_request]"
  by (simp_all add: fetchSpotifyToken_def Let_def and_then_def deref_def
      split: axios_result.splits option.splits)

lemma load_result:
  "fst (loadAudioDataFromStorage env w) =
     Inr (if getItem_fails env then None
          else case storage w ''audioFiles'' of None \<Rightarrow> None | Some txt \<Rightarrow> JSON_parse txt)"
  by (simp add: loadAudioDataFromStorage_def storage_defs split: option.splits)

lemma load_frame:
  "audioFiles (snd (loadAudioDataFromStorage env w)) = audioFiles w"
  "loading (snd (loadAudioDataFromStorage env w)) = loading w"
  "storage (snd (loadAudioDataFromStorage env w)) = storage w"
  "media_calls (snd (loadAudioDataFromStorage env w)) = media_calls w"
  "requests (snd (loadAudioDataFromStorage env w)) = requests w"
  by (simp_all add: loadAudioDataFromStorage_def storage_defs split: option.splits)

text \<open>\<^verbatim>\<open>initialize\<close> after its first two steps: the token \<open>tok\<close> and the cache
  \<open>cached\<close> in hand.\<close>

lemma initialize_unfold:
  assumes "fst (fetchSpotifyToken env w0) = Inr tok"
    and "fst (loadAudioDataFromStorage env (snd (fetchSpotifyToken env w0))) = Inr cached"
  shows "initialize env w0 =
    (let w2 = snd (loadAudioDataFromStorage env (snd (fetchSpotifyToken env w0))) in
     case (cached, online env) of
       (Some fs, False) \<Rightarrow>
         (Inr (),
          w2\<lparr>console := console w2 @ [ConsoleLogData ''Loaded from cache:'' fs],
             audioFiles := fs, loading := False\<rparr>)
     | _ \<Rightarrow>
         (case tok of
            None \<Rightarrow> (Inr (), w2)
          | Some t \<Rightarrow>
              if t \<noteq> [] \<and> online env then fetchAudioFiles env t w2 else (Inr (), w2)))"
proof -
  obtain w1 where 1: "fetchSpotifyToken env w0 = (Inr tok, w1)"
    using assms(1) by (cases "fetchSpotifyToken env w0") auto
  obtain w2 where 2: "loadAudioDataFromStorage env w1 = (Inr cached, w2)"
    using assms(2) 1 by (cases "loadAudioDataFromStorage env w1") auto
  show ?thesis
    by (simp add: initialize_def 1 2)
qed

lemma load_after_token:
  "fst (loadAudioDataFromStorage env (snd (fetchSpotifyToken env w)))
     = fst (loadAudioDataFromStorage env w)"
  by (simp add: load_result token_frame)

text \<open>
  C5. For every library, \<^verbatim>\<open>storeAudioData\<close> followed by \<^verbatim>\<open>loadAudioDataFromStorage\<close>
  gives back a library equal to the one persisted, field for field, when the store
  fails neither on the write nor on the read and nothing is written in between.
\<close>

theorem store_then_load_roundtrip:
  assumes "\<not> setItem_fails env" and "\<not> getItem_fails env"
  shows "fst (loadAudioDataFromStorage env (snd (storeAudioData env library w))) = Inr (Some library)"
  using assms by (simp add: load_result storeAudioData_def setItem_def JSON_roundtrip)

text \<open>C5 on the library of three tracks, one enriched, one bare, one with an artist
  only.\<close>

theorem store_then_load_roundtrip_witness:
  "\<not> setItem_fails env_401 \<and> \<not> getItem_fails env_401
   \<and> fst (loadAudioDataFromStorage env_401 (snd (storeAudioData env_401 library3 (mounted Map.empty))))
       = Inr (Some library3)"
proof -
  have s: "\<not> setItem_fails env_401" and g: "\<not> getItem_fails env_401"
    by (simp_all add: env_401_def)
  from store_then_load_roundtrip [OF s g] s g show ?thesis by simp
qed

text \<open>
  C6. When the permission request answers anything but \<^verbatim>\<open>granted\<close>,
  \<^verbatim>\<open>fetchAudioFiles\<close> is fulfilled (nothing is thrown to its caller), the library it
  found empty stays empty, the notice is logged, the loading flag is cleared, and
  neither the network nor the store is touched.
\<close>

theorem fetchAudioFiles_permission_denied:
  assumes "permission env = Inr status" and "status \<noteq> Granted" and "audioFiles w = []"
  shows "fst (fetchAudioFiles env token w) = Inr ()
    \<and> audioFiles (snd (fetchAudioFiles env token w)) = []
    \<and> loading (snd (fetchAudioFiles env token w)) = False
    \<and> console (snd (fetchAudioFiles env token w))
        = console w @ [ConsoleLog ''Permission to access media library was denied.'']
    \<and> requests (snd (fetchAudioFiles env token w)) = requests w
    \<and> storage (snd (fetchAudioFiles env token w)) = storage w"
  using assms by (simp add: fetchAudioFiles_def fetchAudioFiles_body_def Let_def)

text \<open>C6 at mount, the permission refused.\<close>

theorem fetchAudioFiles_permission_denied_witness:
  "permission env_denied = Inr Denied \<and> Denied \<noteq> Granted \<and> audioFiles (mounted Map.empty) = []
    \<and> fst (fetchAudioFiles env_denied ''BQDtoken'' (mounted Map.empty)) = Inr ()
    \<and> audioFiles (snd (fetchAudioFiles env_denied ''BQDtoken'' (mounted Map.empty))) = []
    \<and> loading (snd (fetchAudioFiles env_denied ''BQDtoken'' (mounted Map.empty))) = False
    \<and> console (snd (fetchAudioFiles env_denied ''BQDtoken'' (mounted Map.empty)))
        = [ConsoleLog ''Permission to access media library was denied.'']"
proof -
  have p: "permission env_denied = Inr Denied" by (simp add: env_denied_def)
  have d: "Denied \<noteq> Granted" by simp
  have a: "audioFiles (mounted Map.empty) = []" by (simp add: mounted_def)
  from fetchAudioFiles_permission_denied [OF p d a, of "''BQDtoken''"] p a show ?thesis
    by (simp add: mounted_def)
qed


text \<open>
  C1, amended. When the token request fails or gives no token (none, or an empty
  string) and the device is online, the scan step does not run: the run ends without an
  exception, the media library is never called, the token request is the only network
  call, and the exposed library stays empty whatever the permission and the assets of
  the device.
\<close>

theorem initialize_without_token:
  assumes "fst (fetchSpotifyToken env (mounted store)) = Inr tok"
    and "tok = None \<or> tok = Some []"
    and "online env"
  shows "fst (initialize env (mounted store)) = Inr ()
    \<and> audioFiles (snd (initialize env (mounted store))) = []
    \<and> media_calls (snd (initialize env (mounted store))) = []
    \<and> requests (snd (initialize env (mounted store))) = [token_request]"
proof -
  obtain cached where c: "fst (loadAudioDataFromStorage env (snd (fetchSpotifyToken env (mounted store)))) = Inr cached"
    by (simp add: load_result)
  have m: "audioFiles (mounted store) = []" "media_calls (mounted store) = []"
    "requests (mounted store) = []"
    by (simp_all add: mounted_def)
  show ?thesis
    using assms(2,3) m
    by (auto simp: initialize_unfold [OF assms(1) c] Let_def load_frame token_frame
        split: option.splits bool.splits)
qed

text \<open>
  C1, as stated, fails: the token endpoint answers 401, the device is online, the
  permission is granted and the device holds one asset, yet the exposed library is not
  the list of the unenriched tracks of the device.
\<close>

theorem initialize_token_401_scans_nothing:
  "fst (fetchSpotifyToken env_401 (mounted Map.empty)) = Inr None
   \<and> online env_401 \<and> permission env_401 = Inr Granted \<and> assets env_401 = Inr [song_a]
   \<and> audioFiles (snd (initialize env_401 (mounted Map.empty))) \<noteq> map asset_file [song_a]"
proof -
  have t: "fst (fetchSpotifyToken env_401 (mounted Map.empty)) = Inr None"
    by (simp add: token_result env_401_def)
  have c: "fst (loadAudioDataFromStorage env_401 (snd (fetchSpotifyToken env_401 (mounted Map.empty)))) = Inr None"
    by (simp add: load_result token_frame mounted_def env_401_def)
  have "audioFiles (snd (initialize env_401 (mounted Map.empty))) = []"
    by (simp add: initialize_unfold [OF t c] Let_def load_frame token_frame)
       (simp add: mounted_def)
  with t show ?thesis
    by (simp add: env_401_def)
qed

text \<open>C1, amended, on the same run.\<close>

theorem initialize_without_token_witness:
  "fst (fetchSpotifyToken env_401 (mounted Map.empty)) = Inr None \<and> online env_401
    \<and> fst (initialize env_401 (mounted Map.empty)) = Inr ()
    \<and> audioFiles (snd (initialize env_401 (mounted Map.empty))) = []
    \<and> media_calls (snd (initialize env_401 (mounted Map.empty))) = []
    \<and> requests (snd (initialize env_401 (mounted Map.empty))) = [token_request]"
proof -
  have t: "fst (fetchSpotifyToken env_401 (mounted Map.empty)) = Inr None"
    by (simp add: token_result env_401_def)
  have o: "online env_401" by (simp add: env_401_def)
  from initialize_without_token [OF t _ o] t o show ?thesis by simp
qed

text \<open>
  C2, amended. When the device is offline and the store holds a readable snapshot, the
  run ends without an exception, the provider exposes exactly the cached tracks and
  clears the loading flag, the media library is not called and no catalog request is
  made: the only network call of the run is the token request that \<^verbatim>\<open>initialize\<close>
  makes before it looks at the cache.
\<close>

theorem initialize_offline_cached:
  assumes "\<not> online env" and "\<not> getItem_fails env"
    and "store ''audioFiles'' = Some txt" and "JSON_parse txt = Some cached"
  shows "fst (initialize env (mounted store)) = Inr ()
    \<and> audioFiles (snd (initialize env (mounted store))) = cached
    \<and> loading (snd (initialize env (mounted store))) = False
    \<and> requests (snd (initialize env (mounted store))) = [token_request]
    \<and> media_calls (snd (initialize env (mounted store))) = []"
proof -
  obtain tok where t: "fst (fetchSpotifyToken env (mounted store)) = Inr tok"
    by (simp add: token_result)
  have c: "fst (loadAudioDataFromStorage env (snd (fetchSpotifyToken env (mounted store)))) = Inr (Some cached)"
    using assms by (simp add: load_result token_frame mounted_def)
  have m: "media_calls (mounted store) = []" "requests (mounted store) = []"
    by (simp_all add: mounted_def)
  show ?thesis
    using assms(1) m
    by (simp add: initialize_unfold [OF t c] Let_def load_frame token_frame)
qed

text \<open>
  C2, as stated, fails: offline, with a cached snapshot of three tracks, the run still
  makes a network call, the token request.
\<close>

theorem initialize_offline_still_requests_token:
  "\<not> online env_offline
   \<and> fst (loadAudioDataFromStorage env_offline (mounted cache3)) = Inr (Some library3)
   \<and> length library3 = 3
   \<and> requests (snd (initialize env_offline (mounted cache3))) = [token_request]
   \<and> requests (snd (initialize env_offline (mounted cache3))) \<noteq> []"
proof -
  have o: "\<not> online env_offline" and g: "\<not> getItem_fails env_offline"
    by (simp_all add: env_offline_def)
  have s: "cache3 ''audioFiles'' = Some (JSON_stringify library3)"
    by (simp add: cache3_def)
  have l: "fst (loadAudioDataFromStorage env_offline (mounted cache3)) = Inr (Some library3)"
    using g s by (simp add: load_result mounted_def JSON_roundtrip)
  obtain tok where t: "fst (fetchSpotifyToken env_offline (mounted cache3)) = Inr tok"
    by (simp add: token_result)
  have c: "fst (loadAudioDataFromStorage env_offline (snd (fetchSpotifyToken env_offline (mounted cache3)))) = Inr (Some library3)"
    using l by (simp add: load_after_token)
  have "requests (snd (initialize env_offline (mounted cache3))) = [token_request]"
    using o by (simp add: initialize_unfold [OF t c] Let_def load_frame token_frame)
      (simp add: mounted_def)
  with o l show ?thesis
    by (simp add: library3_def)
qed

text \<open>C2, amended, on the same run.\<close>

theorem initialize_offline_cached_witness:
  "\<not> online env_offline \<and> \<not> getItem_fails env_offline
    \<and> cache3 ''audioFiles'' = Some (JSON_stringify library3)
    \<and> JSON_parse (JSON_stringify library3) = Some library3
    \<and> fst (initialize env_offline (mounted cache3)) = Inr ()
    \<and> audioFiles (snd (initialize env_offline (mounted cache3))) = library3
    \<and> loading (snd (initialize env_offline (mounted cache3))) = False
    \<and> requests (snd (initialize env_offline (mounted cache3))) = [token_request]
    \<and> media_calls (snd (initialize env_offline (mounted cache3))) = []"
proof -
  have o: "\<not> online env_offline" and g: "\<not> getItem_fails env_offline"
    by (simp_all add: env_offline_def)
  have s: "cache3 ''audioFiles'' = Some (JSON_stringify library3)"
    by (simp add: cache3_def)
  have p: "JSON_parse (JSON_stringify library3) = Some library3"
    by (rule JSON_roundtrip)
  from initialize_offline_cached [where env = env_offline and store = cache3, OF o g s p] o g s p
  show ?thesis by simp
qed

text \<open>
  C3, amended. When the run takes neither the cache path nor the refresh path, that is
  when the device is offline and no cached snapshot can be read, or the device is
  online and no token was obtained, the run ends without an exception and the exposed
  library is empty.
\<close>

theorem initialize_neither_path:
  assumes "fst (fetchSpotifyToken env (mounted store)) = Inr tok"
    and "fst (loadAudioDataFromStorage env (mounted store)) = Inr cached"
    and "(\<not> online env \<and> cached = None) \<or> (online env \<and> (tok = None \<or> tok = Some []))"
  shows "fst (initialize env (mounted store)) = Inr ()
    \<and> audioFiles (snd (initialize env (mounted store))) = []"
proof -
  have c: "fst (loadAudioDataFromStorage env (snd (fetchSpotifyToken env (mounted store)))) = Inr cached"
    using assms(2) by (simp add: load_after_token)
  have m: "audioFiles (mounted store) = []"
    by (simp add: mounted_def)
  show ?thesis
    using assms(3) m
    by (auto simp: initialize_unfold [OF assms(1) c] Let_def load_frame token_frame
        split: option.splits bool.splits)
qed

text \<open>
  C3, as stated, fails: with no token, offline and a cached snapshot, the exposed
  library is the snapshot, not empty; and with no token online the loading flag is
  still set when the run ends.
\<close>

theorem initialize_serves_cache_without_token:
  "fst (fetchSpotifyToken env_offline (mounted cache3)) = Inr None
   \<and> audioFiles (snd (initialize env_offline (mounted cache3))) = library3
   \<and> library3 \<noteq> []
   \<and> fst (fetchSpotifyToken env_401 (mounted Map.empty)) = Inr None
   \<and> loading (snd (initialize env_401 (mounted Map.empty))) = True"
proof -
  have o: "\<not> online env_offline" and g: "\<not> getItem_fails env_offline"
    by (simp_all add: env_offline_def)
  have t: "fst (fetchSpotifyToken env_offline (mounted cache3)) = Inr None"
    by (simp add: token_result env_offline_def)
  have c: "fst (loadAudioDataFromStorage env_offline (snd (fetchSpotifyToken env_offline (mounted cache3)))) = Inr (Some library3)"
    using g by (simp add: load_result token_frame mounted_def cache3_def JSON_roundtrip)
  have a: "audioFiles (snd (initialize env_offline (mounted cache3))) = library3"
    using o by (simp add: initialize_unfold [OF t c] Let_def)
  have t': "fst (fetchSpotifyToken env_401 (mounted Map.empty)) = Inr None"
    by (simp add: token_result env_401_def)
  have c': "fst (loadAudioDataFromStorage env_401 (snd (fetchSpotifyToken env_401 (mounted Map.empty)))) = Inr None"
    by (simp add: load_result token_frame mounted_def env_401_def)
  have l: "loading (snd (initialize env_401 (mounted Map.empty))) = True"
    by (simp add: initialize_unfold [OF t' c'] Let_def load_frame token_frame)
       (simp add: mounted_def)
  from t a t' l show ?thesis
    by (simp add: library3_def)
qed

text \<open>C3, amended, offline with an empty store.\<close>

theorem initialize_neither_path_witness:
  "fst (fetchSpotifyToken env_offline (mounted Map.empty)) = Inr None
    \<and> fst (loadAudioDataFromStorage env_offline (mounted Map.empty)) = Inr None
    \<and> \<not> online env_offline
    \<and> fst (initialize env_offline (mounted Map.empty)) = Inr ()
    \<and> audioFiles (snd (initialize env_offline (mounted Map.empty))) = []"
proof -
  have t: "fst (fetchSpotifyToken env_offline (mounted Map.empty)) = Inr None"
    by (simp add: token_result env_offline_def)
  have c: "fst (loadAudioDataFromStorage env_offline (mounted Map.empty)) = Inr None"
    by (simp add: load_result mounted_def env_offline_def)
  have o: "\<not> online env_offline" by (simp add: env_offline_def)
  from initialize_neither_path [OF t c] t c o show ?thesis by simp
qed

subsection \<open>Further properties of the pipeline\<close>

text \<open>
  X1. For every track the request goes to the search endpoint with, as \<^verbatim>\<open>q\<close>, the
  URL-escaped part of the file name before its first dot, and with \<^verbatim>\<open>type=track\<close> and
  \<^verbatim>\<open>limit=1\<close>.
\<close>

theorem search_url_first_dot:
  "search_url file =
     ''https://api.spotify.com/v1/search?q=''
     @ encodeURIComponent (takeWhile (\<lambda>c. c \<noteq> CHR ''.'') (filename file))
     @ ''&type=track&limit=1''"
proof -
  obtain w ws where "split_str (CHR ''.'') (filename file) = w # ws"
    and "w = takeWhile (\<lambda>c. c \<noteq> CHR ''.'') (filename file)"
    using split_str_first [of "CHR ''.''" "filename file"] by blast
  then show ?thesis
    by (simp add: search_url_def searchQuery_def)
qed

text \<open>Every \<^verbatim>\<open>async\<close> function of the provider catches what it throws.\<close>

lemma store_fulfils: "fst (storeAudioData env fs w) = Inr ()"
  by (simp add: storeAudioData_def setItem_def)

lemma fetchAudioFiles_fulfils: "fst (fetchAudioFiles env token w) = Inr ()"
  by (simp add: fetchAudioFiles_def split: prod.splits sum.splits)

text \<open>
  X2. Whatever the outside world answers and whatever the state, \<^verbatim>\<open>initialize\<close> is
  fulfilled: no failure of the token request, the store, the media library or the
  catalog reaches the caller.
\<close>

theorem initialize_never_rejects: "fst (initialize env w) = Inr ()"
proof -
  obtain tok where t: "fst (fetchSpotifyToken env w) = Inr tok"
    by (simp add: token_result)
  obtain cached where c: "fst (loadAudioDataFromStorage env (snd (fetchSpotifyToken env w))) = Inr cached"
    by (simp add: load_result)
  show ?thesis
    by (simp add: initialize_unfold [OF t c] Let_def fetchAudioFiles_fulfils
        split: option.splits bool.splits)
qed

text \<open>
  X3. When the permission is granted, the assets are listed and the store accepts the
  write, \<^verbatim>\<open>fetchAudioFiles\<close> exposes the result of the enrichment of the scanned files,
  leaves its JSON text under the key \<^verbatim>\<open>audioFiles\<close>, and clears the loading flag.
\<close>

theorem fetchAudioFiles_persists:
  assumes "permission env = Inr Granted" and "assets env = Inr found" and "\<not> setItem_fails env"
  shows "storage (snd (fetchAudioFiles env token w)) ''audioFiles''
           = Some (JSON_stringify (audioFiles (snd (fetchAudioFiles env token w))))
    \<and> fst (enhanceAudioWithSpotifyData (search_outcome env) (map asset_file found) token)
           = Inr (audioFiles (snd (fetchAudioFiles env token w)))
    \<and> loading (snd (fetchAudioFiles env token w)) = False"
proof -
  obtain enhanced reqs lines where e:
    "enhanceAudioWithSpotifyData (search_outcome env) (map asset_file found) token
       = (Inr enhanced, reqs, lines)"
    using enhance_result [of "search_outcome env" "map asset_file found" token]
    by (cases "enhanceAudioWithSpotifyData (search_outcome env) (map asset_file found) token") auto
  show ?thesis
    using assms
    by (simp add: fetchAudioFiles_def fetchAudioFiles_body_def Let_def e storeAudioData_def
        setItem_def)
qed

text \<open>X3 on the device with two assets.\<close>

theorem fetchAudioFiles_persists_witness:
  "permission env_two = Inr Granted \<and> assets env_two = Inr [song_a, song_b]
    \<and> \<not> setItem_fails env_two
    \<and> storage (snd (fetchAudioFiles env_two ''BQDtoken'' (mounted Map.empty))) ''audioFiles''
           = Some (JSON_stringify (audioFiles (snd (fetchAudioFiles env_two ''BQDtoken'' (mounted Map.empty)))))
    \<and> loading (snd (fetchAudioFiles env_two ''BQDtoken'' (mounted Map.empty))) = False"
proof -
  have p: "permission env_two = Inr Granted" and a: "assets env_two = Inr [song_a, song_b]"
    and s: "\<not> setItem_fails env_two"
    by (simp_all add: env_two_def)
  from fetchAudioFiles_persists [OF p a s, of "''BQDtoken''" "mounted Map.empty"] p a s
  show ?thesis by simp
qed

text \<open>
  X4. The scenario of the spec: online, a token obtained, two assets, a match for the
  first and none for the second. The first track is exposed fully enriched, the second
  with its metadata unset, both in scan order; the loading flag is cleared; the network
  calls are the token request and one search per track.
\<close>

theorem initialize_two_assets:
  "audioFiles (snd (initialize env_two (mounted Map.empty))) =
     [\<lparr>id' = ''1'', filename = ''my.song.mp3'', uri = ''file:///music/my.song.mp3'',
       albumCover = Some ''https://i.scdn.co/image/ab67'', artist = Some ''Some Artist'',
       album = Some ''Some Album''\<rparr>,
      \<lparr>id' = ''2'', filename = ''b.mp3'', uri = ''file:///music/b.mp3'',
       albumCover = None, artist = None, album = None\<rparr>]
   \<and> loading (snd (initialize env_two (mounted Map.empty))) = False
   \<and> requests (snd (initialize env_two (mounted Map.empty))) =
       [token_request,
        Get ''https://api.spotify.com/v1/search?q=my&type=track&limit=1'' ''Bearer BQDtoken'',
        Get ''https://api.spotify.com/v1/search?q=b&type=track&limit=1'' ''Bearer BQDtoken'']"
proof -
  have t: "fst (fetchSpotifyToken env_two (mounted Map.empty)) = Inr (Some ''BQDtoken'')"
    by (simp add: token_result env_two_def)
  have c: "fst (loadAudioDataFromStorage env_two (snd (fetchSpotifyToken env_two (mounted Map.empty)))) = Inr None"
    by (simp add: load_result token_frame mounted_def env_two_def)
  have o: "online env_two" by (simp add: env_two_def)
  have p: "permission env_two = Inr Granted" and a: "assets env_two = Inr [song_a, song_b]"
    and s: "search_outcome env_two 0 = matches [Some (Track
                 (Some (Album (Some [Some (Image (Some ''https://i.scdn.co/image/ab67''))])
                    (Some ''Some Album'')))
                 (Some [Some (Artist (Some ''Some Artist''))]))]"
    and s': "search_outcome env_two (Suc 0) = matches []"
    and f: "\<not> setItem_fails env_two"
    by (simp_all add: env_two_def)
  have e: "enhanceAudioWithSpotifyData (search_outcome env_two) [asset_file song_a, asset_file song_b] ''BQDtoken''
    = (Inr [\<lparr>id' = ''1'', filename = ''my.song.mp3'', uri = ''file:///music/my.song.mp3'',
       albumCover = Some ''https://i.scdn.co/image/ab67'', artist = Some ''Some Artist'',
       album = Some ''Some Album''\<rparr>,
      \<lparr>id' = ''2'', filename = ''b.mp3'', uri = ''file:///music/b.mp3'',
       albumCover = None, artist = None, album = None\<rparr>],
       [Get ''https://api.spotify.com/v1/search?q=my&type=track&limit=1'' ''Bearer BQDtoken'',
        Get ''https://api.spotify.com/v1/search?q=b&type=track&limit=1'' ''Bearer BQDtoken''],
       [])"
    by (simp add: enhanceAudioWithSpotifyData_def Let_def s s' enhance_defs first_def
        asset_file_def song_a_def song_b_def search_request_def search_url_def searchQuery_def
        encodeURIComponent_def uri_unreserved_def)
  show ?thesis
    using o
    by (simp add: initialize_unfold [OF t c] Let_def fetchAudioFiles_def
        fetchAudioFiles_body_def p a e storeAudioData_def setItem_def f load_frame token_frame)
      (simp add: mounted_def)
qed

end
